theory Spec2Isabelle
  imports Complex_Main "HOL-Library.Char_ord" "HOL-Library.List_Lexorder"
begin

section \<open>Travel page generator: scripts/generate-travel.js\<close>

text \<open>
  Text is modelled as \<^typ>\<open>string\<close>; a character outside ASCII stands as its UTF-8
  bytes, the form it has in the files the script reads and writes. Diagnostic output
  (\<^verbatim>\<open>console.log\<close>, \<^verbatim>\<open>console.error\<close>) is not part of any result and is left out.
\<close>

subsection \<open>Values handed over by the metadata decoder\<close>

text \<open>
  A JavaScript number is NaN, an infinity or a finite double, which is a rational;
  both zeros are \<open>Fin 0\<close>. A timestamp tag arrives as a revived \<^verbatim>\<open>Date\<close> object
  (its time value, \<open>None\<close> for an invalid date) or as the tag's raw text.
\<close>

datatype number = NaN | Inf bool | Fin rat

datatype timestamp = DateObject "int option" | DateText string

text \<open>
  The record the decoder returns. A tag that is missing reads as \<^verbatim>\<open>undefined\<close>,
  here \<open>None\<close>; a tag that is there with an empty value is \<open>Some []\<close>.
\<close>

record RawMetadata =
  DateTimeOriginal :: "timestamp option"
  DateTime :: "timestamp option"
  Make :: "string option"
  Model :: "string option"
  latitude :: "number option"
  longitude :: "number option"
  ImageDescription :: "string option"
  UserComment :: "string option"

record coords =
  lat :: number
  lng :: number

record NormalizedMetadata =
  date :: string
  camera :: string
  location :: "coords option"
  description :: "string option"

text \<open>
  What the script takes from its surroundings: the decoder \<^verbatim>\<open>exifr.parse\<close> (it raises,
  \<open>Inl\<close> with the message, or resolves to no data or to a record), the platform's
  \<^verbatim>\<open>new Date(v).toLocaleDateString('en-US', ...)\<close>, the text of a number inside a
  template literal, and the file system: whether a path exists, the listing of a
  directory (it raises, or gives each entry's name and whether it is a directory), the
  read of the template file (it raises or gives the text) and the write of a file (it
  succeeds, \<open>None\<close>, or raises, \<open>Some\<close> with the message).
\<close>

record env =
  exifr_parse :: "string \<Rightarrow> string + RawMetadata option"
  toLocaleDateString :: "timestamp \<Rightarrow> string"
  numberToString :: "number \<Rightarrow> string"
  existsSync :: "string \<Rightarrow> bool"
  readdirSync :: "string \<Rightarrow> string + (string \<times> bool) list"
  readTemplate :: "string + string"
  writeFileSync :: "string \<Rightarrow> string \<Rightarrow> string option"

subsection \<open>Truthiness\<close>

text \<open>
  Every test of \<^verbatim>\<open>getImageMetadata\<close> is a JavaScript truthiness test:
  \<^verbatim>\<open>undefined\<close>, the empty string, zero and NaN are falsy, every object is truthy.
\<close>

fun truthy_string :: "string option \<Rightarrow> bool" where
  "truthy_string None = False"
| "truthy_string (Some s) = (s \<noteq> [])"

fun truthy_number :: "number option \<Rightarrow> bool" where
  "truthy_number None = False"
| "truthy_number (Some NaN) = False"
| "truthy_number (Some (Inf _)) = True"
| "truthy_number (Some (Fin q)) = (q \<noteq> 0)"

fun truthy_timestamp :: "timestamp option \<Rightarrow> bool" where
  "truthy_timestamp None = False"
| "truthy_timestamp (Some (DateObject _)) = True"
| "truthy_timestamp (Some (DateText s)) = (s \<noteq> [])"

subsection \<open>getImageMetadata\<close>

definition fallback :: NormalizedMetadata where
  "fallback = \<lparr>date = ''Unknown date'', camera = ''Unknown camera'',
     location = None, description = None\<rparr>"

text \<open>Lines 48 to 98: the record starts as the fallback and is updated tag by tag.\<close>

definition fill_date :: "env \<Rightarrow> RawMetadata \<Rightarrow> NormalizedMetadata \<Rightarrow> NormalizedMetadata" where
  "fill_date e exifData metadata =
     (if truthy_timestamp (DateTimeOriginal exifData)
      then metadata\<lparr>date := toLocaleDateString e (the (DateTimeOriginal exifData))\<rparr>
      else if truthy_timestamp (DateTime exifData)
      then metadata\<lparr>date := toLocaleDateString e (the (DateTime exifData))\<rparr>
      else metadata)"

definition fill_camera :: "RawMetadata \<Rightarrow> NormalizedMetadata \<Rightarrow> NormalizedMetadata" where
  "fill_camera exifData metadata =
     (if truthy_string (Make exifData) \<and> truthy_string (Model exifData)
      then metadata\<lparr>camera := the (Make exifData) @ '' '' @ the (Model exifData)\<rparr>
      else if truthy_string (Make exifData)
      then metadata\<lparr>camera := the (Make exifData)\<rparr>
      else if truthy_string (Model exifData)
      then metadata\<lparr>camera := the (Model exifData)\<rparr>
      else metadata)"

definition fill_location :: "RawMetadata \<Rightarrow> NormalizedMetadata \<Rightarrow> NormalizedMetadata" where
  "fill_location exifData metadata =
     (if truthy_number (latitude exifData) \<and> truthy_number (longitude exifData)
      then metadata\<lparr>location :=
             Some \<lparr>lat = the (latitude exifData), lng = the (longitude exifData)\<rparr>\<rparr>
      else metadata)"

definition fill_description :: "RawMetadata \<Rightarrow> NormalizedMetadata \<Rightarrow> NormalizedMetadata" where
  "fill_description exifData metadata =
     (if truthy_string (ImageDescription exifData)
      then metadata\<lparr>description := ImageDescription exifData\<rparr>
      else if truthy_string (UserComment exifData)
      then metadata\<lparr>description := UserComment exifData\<rparr>
      else metadata)"

definition getImageMetadata :: "env \<Rightarrow> string \<Rightarrow> NormalizedMetadata" where
  "getImageMetadata e imagePath =
     (case exifr_parse e imagePath of
        Inl error \<Rightarrow> fallback
      | Inr None \<Rightarrow> fallback
      | Inr (Some exifData) \<Rightarrow>
          fill_description exifData
            (fill_location exifData
              (fill_camera exifData
                (fill_date e exifData fallback))))"

subsection \<open>String and array operations of the platform\<close>

definition ToString :: "string option \<Rightarrow> string" where
  \<comment> \<open>a string, or \<^verbatim>\<open>undefined\<close>, inside a template literal or as an argument of parseInt\<close>
  "ToString v = (case v of None \<Rightarrow> ''undefined'' | Some s \<Rightarrow> s)"

fun split :: "char \<Rightarrow> string \<Rightarrow> string list" where
  "split sep [] = [[]]"
| "split sep (c # cs) =
     (if c = sep then [] # split sep cs
      else case split sep cs of [] \<Rightarrow> [[c]] | w # ws \<Rightarrow> (c # w) # ws)"

fun join :: "string \<Rightarrow> string list \<Rightarrow> string" where
  "join sep [] = []"
| "join sep [x] = x"
| "join sep (x # y # ys) = x @ sep @ join sep (y # ys)"

definition index :: "'a list \<Rightarrow> nat \<Rightarrow> 'a option" where
  \<comment> \<open>\<^verbatim>\<open>parts[i]\<close>: \<^verbatim>\<open>undefined\<close> past the end\<close>
  "index xs i = (if i < length xs then Some (xs ! i) else None)"

definition index_number :: "'a list \<Rightarrow> int option \<Rightarrow> 'a option" where
  \<comment> \<open>\<^verbatim>\<open>xs[n]\<close> for a number \<open>n\<close> (\<open>None\<close> is NaN): an element only for an integer
      from 0 to length - 1\<close>
  "index_number xs n =
     (case n of None \<Rightarrow> None
      | Some k \<Rightarrow> if 0 \<le> k \<and> k < int (length xs) then Some (xs ! nat k) else None)"

definition or_else :: "string option \<Rightarrow> string option \<Rightarrow> string option" where
  \<comment> \<open>\<^verbatim>\<open>a || b\<close>\<close>
  "or_else a b = (if truthy_string a then a else b)"

definition charAt :: "string \<Rightarrow> nat \<Rightarrow> string" where
  "charAt s i = (if i < length s then [s ! i] else [])"

text \<open>
  Case mapping is modelled on the ASCII letters. For an extension this decides the same
  files, since no other character maps into the lower-case ASCII letters of the allowed
  extensions; a location word that starts with a letter outside ASCII is outside the
  model.
\<close>

definition upper_char :: "char \<Rightarrow> char" where
  "upper_char c =
     (case map_of (zip ''abcdefghijklmnopqrstuvwxyz'' ''ABCDEFGHIJKLMNOPQRSTUVWXYZ'') c of
        Some u \<Rightarrow> u | None \<Rightarrow> c)"


definition toUpperCase :: "string \<Rightarrow> string" where
  "toUpperCase s = map upper_char s"


fun decimal :: "nat \<Rightarrow> string" where
  "decimal n =
     (if n < 10 then [''0123456789'' ! n]
      else decimal (n div 10) @ [''0123456789'' ! (n mod 10)])"

subsection \<open>parseInt\<close>

text \<open>
  \<^verbatim>\<open>parseInt(s)\<close> with no radix: leading white space is skipped (the white space and
  line terminator code points of the language, here in UTF-8), then an optional sign,
  then \<^verbatim>\<open>0x\<close> or \<^verbatim>\<open>0X\<close> selects radix 16, then the longest run of digits is read and
  whatever follows is ignored. No digit gives NaN, here \<open>None\<close>.
\<close>

definition white1 :: "char \<Rightarrow> bool" where
  "white1 c = (c \<in> set [CHR 0x09, CHR 0x0A, CHR 0x0B, CHR 0x0C, CHR 0x0D, CHR 0x20])"

definition white2 :: "string \<Rightarrow> bool" where
  \<comment> \<open>U+00A0\<close>
  "white2 s = (take 2 s = [CHR 0xC2, CHR 0xA0])"

definition white3 :: "string \<Rightarrow> bool" where
  \<comment> \<open>U+1680, U+2000 to U+200A, U+2028, U+2029, U+202F, U+205F, U+3000, U+FEFF\<close>
  "white3 s =
     (take 3 s \<in> set
        [[CHR 0xE1, CHR 0x9A, CHR 0x80],
         [CHR 0xE2, CHR 0x80, CHR 0x80], [CHR 0xE2, CHR 0x80, CHR 0x81],
         [CHR 0xE2, CHR 0x80, CHR 0x82], [CHR 0xE2, CHR 0x80, CHR 0x83],
         [CHR 0xE2, CHR 0x80, CHR 0x84], [CHR 0xE2, CHR 0x80, CHR 0x85],
         [CHR 0xE2, CHR 0x80, CHR 0x86], [CHR 0xE2, CHR 0x80, CHR 0x87],
         [CHR 0xE2, CHR 0x80, CHR 0x88], [CHR 0xE2, CHR 0x80, CHR 0x89],
         [CHR 0xE2, CHR 0x80, CHR 0x8A], [CHR 0xE2, CHR 0x80, CHR 0xA8],
         [CHR 0xE2, CHR 0x80, CHR 0xA9], [CHR 0xE2, CHR 0x80, CHR 0xAF],
         [CHR 0xE2, CHR 0x81, CHR 0x9F], [CHR 0xE3, CHR 0x80, CHR 0x80],
         [CHR 0xEF, CHR 0xBB, CHR 0xBF]])"

function trimStart :: "string \<Rightarrow> string" where
  "trimStart s =
     (if s = [] then []
      else if white1 (hd s) then trimStart (drop 1 s)
      else if white2 s then trimStart (drop 2 s)
      else if white3 s then trimStart (drop 3 s)
      else s)"
  by pat_completeness auto
termination
  by (relation "measure length") auto

definition digitValue :: "char \<Rightarrow> nat option" where
  "digitValue c =
     (let k = (of_char c :: nat)
      in if 48 \<le> k \<and> k \<le> 57 then Some (k - 48)
         else if 97 \<le> k \<and> k \<le> 122 then Some (k - 87)
         else if 65 \<le> k \<and> k \<le> 90 then Some (k - 55)
         else None)"

definition radixDigit :: "nat \<Rightarrow> char \<Rightarrow> bool" where
  "radixDigit R c = (case digitValue c of None \<Rightarrow> False | Some v \<Rightarrow> v < R)"

definition digitsValue :: "nat \<Rightarrow> string \<Rightarrow> nat" where
  "digitsValue R Z = foldl (\<lambda>acc c. acc * R + the (digitValue c)) 0 Z"

definition parseInt :: "string \<Rightarrow> int option" where
  "parseInt inputString =
     (let S = trimStart inputString;
          sign = (if S \<noteq> [] \<and> hd S = CHR ''-'' then - 1 else 1 :: int);
          S = (if S \<noteq> [] \<and> (hd S = CHR ''+'' \<or> hd S = CHR ''-'') then tl S else S);
          hex = (take 2 S = ''0x'' \<or> take 2 S = ''0X'');
          R = (if hex then 16 else 10);
          S = (if hex then drop 2 S else S);
          Z = takeWhile (radixDigit R) S
      in if Z = [] then None else Some (sign * int (digitsValue R Z)))"

subsection \<open>formatTripName\<close>

definition monthNames :: "string list" where
  "monthNames =
     [''January'', ''February'', ''March'', ''April'', ''May'', ''June'',
      ''July'', ''August'', ''September'', ''October'', ''November'', ''December'']"

definition monthName :: "string option \<Rightarrow> string option" where
  \<comment> \<open>line 121: \<^verbatim>\<open>monthNames[parseInt(month) - 1] || month\<close>\<close>
  "monthName month =
     or_else (index_number monthNames (map_option (\<lambda>n. n - 1) (parseInt (ToString month))))
       month"

definition capitalize :: "string \<Rightarrow> string" where
  \<comment> \<open>lines 122 and 123: \<^verbatim>\<open>word.charAt(0).toUpperCase() + word.slice(1)\<close>\<close>
  "capitalize word = toUpperCase (charAt word 0) @ drop 1 word"

definition formatTripName :: "string \<Rightarrow> string" where
  "formatTripName dirName =
     (let parts = split (CHR ''-'') dirName;
          year = index parts 0;
          month = index parts 1;
          location = join '' '' (drop 2 parts);
          locationFormatted = join '' '' (map capitalize (split (CHR '' '') location))
      in ToString (monthName month) @ '' '' @ ToString year @ '', '' @ locationFormatted)"

subsection \<open>getImageFiles\<close>

definition TRAVEL_DIR :: string where
  "TRAVEL_DIR = ''./public/travel''"





text \<open>
  \<^verbatim>\<open>path.join\<close> of the travel directory and entry names: the segments joined by
  slashes, the leading \<^verbatim>\<open>./\<close> dropped by the normalisation.
\<close>

definition path_join :: "string list \<Rightarrow> string" where
  "path_join segments =
     (let p = join ''/'' segments in if take 2 p = ''./'' then drop 2 p else p)"



subsection \<open>generateTripSection\<close>

definition pin :: string where
  \<comment> \<open>U+1F4CD\<close>
  "pin = [CHR 0xF0, CHR 0x9F, CHR 0x93, CHR 0x8D]"

definition memo :: string where
  \<comment> \<open>U+1F4DD\<close>
  "memo = [CHR 0xF0, CHR 0x9F, CHR 0x93, CHR 0x9D]"

definition calendar :: string where
  \<comment> \<open>U+1F4C5\<close>
  "calendar = [CHR 0xF0, CHR 0x9F, CHR 0x93, CHR 0x85]"

definition camera_sign :: string where
  \<comment> \<open>U+1F4F7\<close>
  "camera_sign = [CHR 0xF0, CHR 0x9F, CHR 0x93, CHR 0xB7]"

definition locationInfo :: "env \<Rightarrow> NormalizedMetadata \<Rightarrow> string" where
  \<open>locationInfo e metadata =
     (case location metadata of
        Some l \<Rightarrow>
          ''<p class="location">'' @ pin @ '' <a href="https://maps.google.com/?q=''
          @ numberToString e (lat l) @ '','' @ numberToString e (lng l)
          @ ''" target="_blank">View on Map</a></p>''
      | None \<Rightarrow> [])\<close>

definition descriptionInfo :: "NormalizedMetadata \<Rightarrow> string" where
  \<open>descriptionInfo metadata =
     (if truthy_string (description metadata)
      then ''<p class="description">'' @ memo @ '' '' @ the (description metadata) @ ''</p>''
      else [])\<close>

definition imageElement :: "env \<Rightarrow> string \<Rightarrow> string \<Rightarrow> string \<Rightarrow> string" where
  \<open>imageElement e tripDir tripName imageName =
     (let imagePath = path_join [TRAVEL_DIR, tripDir, imageName];
          metadata = getImageMetadata e imagePath
      in ''\<newline>        <div class="image-container">''
         @ ''\<newline>            <img src="/public/travel/'' @ tripDir @ ''/'' @ imageName
         @ ''" alt="'' @ tripName @ '' - '' @ imageName @ ''" loading="lazy">''
         @ ''\<newline>            <div class="image-info">''
         @ ''\<newline>                <p class="date">'' @ calendar @ '' '' @ date metadata @ ''</p>''
         @ ''\<newline>                <p class="camera">'' @ camera_sign @ '' '' @ camera metadata
         @ ''</p>''
         @ ''\<newline>                '' @ locationInfo e metadata
         @ ''\<newline>                '' @ descriptionInfo metadata
         @ ''\<newline>            </div>''
         @ ''\<newline>        </div>'')\<close>

definition generateTripSection :: "env \<Rightarrow> string \<Rightarrow> string \<Rightarrow> string list \<Rightarrow> string" where
  \<open>generateTripSection e tripDir tripName images =
     (let imageElements = map (imageElement e tripDir tripName) images
      in ''\<newline>    <section class="trip-section" id="'' @ tripDir @ ''">''
         @ ''\<newline>        <div class="trip-header">''
         @ ''\<newline>            <h2 class="trip-title">'' @ tripName @ ''</h2>''
         @ ''\<newline>            <div class="trip-meta">''
         @ ''\<newline>                <span class="trip-count">'' @ decimal (length images)
         @ '' photos</span>''
         @ ''\<newline>            </div>''
         @ ''\<newline>        </div>''
         @ ''\<newline>        <div class="gallery">''
         @ ''\<newline>            '' @ join [] imageElements
         @ ''\<newline>        </div>''
         @ ''\<newline>    </section>'')\<close>

subsection \<open>generateTravelPage\<close>

record Trip =
  dir :: string
  name :: string
  images :: "string list"

definition MARKER :: string where
  "MARKER = ''<!-- PUT CONTENT HERE -->''"

definition NO_TRIPS :: string where
  \<open>NO_TRIPS = ''<div class="no-trips"><h2>No trips found</h2></div>''\<close>

text \<open>
  \<^verbatim>\<open>template.replace(marker, content)\<close> with two strings: the first occurrence of the
  marker is looked up; with none the text comes back as it is. The replacement text is
  read as a pattern: \<^verbatim>\<open>$$\<close> gives a dollar sign, \<^verbatim>\<open>$&\<close> the matched text,
  \<^verbatim>\<open>$`\<close> the text before the match and \<^verbatim>\<open>$'\<close> the text after it; a dollar sign
  before anything else stands for itself.
\<close>

fun indexOf :: "string \<Rightarrow> string \<Rightarrow> nat option" where
  "indexOf searchString [] = (if searchString = [] then Some 0 else None)"
| "indexOf searchString (c # cs) =
     (if take (length searchString) (c # cs) = searchString then Some 0
      else map_option Suc (indexOf searchString cs))"

fun getSubstitution :: "string \<Rightarrow> string \<Rightarrow> string \<Rightarrow> string \<Rightarrow> string" where
  "getSubstitution matched before after [] = []"
| "getSubstitution matched before after [c] = [c]"
| "getSubstitution matched before after (c # d # r) =
     (if c = CHR 0x24 \<and> d = CHR 0x24 then CHR 0x24 # getSubstitution matched before after r
      else if c = CHR 0x24 \<and> d = CHR 0x26 then matched @ getSubstitution matched before after r
      else if c = CHR 0x24 \<and> d = CHR 0x60 then before @ getSubstitution matched before after r
      else if c = CHR 0x24 \<and> d = CHR 0x27 then after @ getSubstitution matched before after r
      else c # getSubstitution matched before after (d # r))"

definition replace :: "string \<Rightarrow> string \<Rightarrow> string \<Rightarrow> string" where
  "replace searchString replaceValue s =
     (case indexOf searchString s of
        None \<Rightarrow> s
      | Some pos \<Rightarrow>
          (let before = take pos s;
               after = drop (pos + length searchString) s
           in before @ getSubstitution searchString before after replaceValue @ after))"

definition pageContent :: "env \<Rightarrow> Trip list \<Rightarrow> string" where
  \<comment> \<open>lines 173 to 180\<close>
  "pageContent e trips =
     (let tripSections =
            map (\<lambda>trip. generateTripSection e (dir trip) (name trip) (images trip)) trips
      in if length trips > 0 then join [] tripSections else NO_TRIPS)"

definition generateTravelPage :: "env \<Rightarrow> Trip list \<Rightarrow> string option" where
  \<comment> \<open>\<open>None\<close> is the \<^verbatim>\<open>null\<close> returned when the template cannot be read\<close>
  "generateTravelPage e trips =
     (let content = pageContent e trips
      in case readTemplate e of
           Inl error \<Rightarrow> None
         | Inr template \<Rightarrow> Some (replace MARKER content template))"

subsection \<open>main\<close>




subsection \<open>The sections of a document\<close>



text \<open>
  Surroundings that hand over plain text: no date text, number text, camera or
  description tag, and no entry name holds the character that opens a tag or a dollar
  sign, no entry of the travel directory holds a double quote in its name, and the
  template holds no opening of a trip section of its own.
\<close>

definition plain :: "string \<Rightarrow> bool" where
  "plain s = (CHR ''<'' \<notin> set s \<and> CHR 0x24 \<notin> set s)"


subsection \<open>Sample inputs\<close>

definition paris_raw :: RawMetadata where
  "paris_raw =
     \<lparr>DateTimeOriginal = Some (DateObject (Some 1689415200000)), DateTime = None,
      Make = Some ''Canon'', Model = Some ''EOS R5'',
      latitude = Some (Fin (488584 / 10000)), longitude = Some (Fin (22945 / 10000)),
      ImageDescription = Some ''Eiffel Tower'', UserComment = Some ''evening''\<rparr>"

definition no_tags :: RawMetadata where
  "no_tags =
     \<lparr>DateTimeOriginal = None, DateTime = None, Make = None, Model = None,
      latitude = None, longitude = None, ImageDescription = None, UserComment = None\<rparr>"

definition sample_number :: "number \<Rightarrow> string" where
  "sample_number n =
     (if n = Fin (488584 / 10000) then ''48.8584''
      else if n = Fin (22945 / 10000) then ''2.2945''
      else if n = Fin 0 then ''0''
      else if n = Fin 10 then ''10''
      else ''NaN'')"

definition sample_template :: string where
  "sample_template = ''<head/>\<newline><!-- PUT CONTENT HERE -->\<newline><foot/>''"

text \<open>
  A travel directory with one album of two images (one of them unreadable to the
  decoder), one album without images, one album whose listing fails and a plain file.
\<close>

definition sample_env :: env where
  "sample_env =
     \<lparr>exifr_parse = (\<lambda>p.
        if p = ''public/travel/2023-07-paris-france/a.jpg'' then Inr (Some paris_raw)
        else if p = ''public/travel/2023-07-paris-france/b.PNG'' then Inr None
        else Inl ''Unknown file format''),
      toLocaleDateString = (\<lambda>t. ''Saturday, July 15, 2023 at 10:00 AM''),
      numberToString = sample_number,
      existsSync = (\<lambda>p. True),
      readdirSync = (\<lambda>p.
        if p = ''./public/travel''
        then Inr [(''2024-01-empty'', True), (''2023-07-paris-france'', True),
                  (''2022-05-locked'', True), (''notes.txt'', False)]
        else if p = ''public/travel/2023-07-paris-france''
        then Inr [(''b.PNG'', False), (''a.jpg'', False), (''readme.md'', False)]
        else if p = ''public/travel/2024-01-empty''
        then Inr [(''todo.txt'', False)]
        else Inl ''EACCES''),
      readTemplate = Inr sample_template,
      writeFileSync = (\<lambda>p text. None)\<rparr>"

definition decoded :: "RawMetadata \<Rightarrow> env" where
  \<comment> \<open>the sample surroundings, with a decoder that yields the given record for every image\<close>
  "decoded r = sample_env\<lparr>exifr_parse := (\<lambda>p. Inr (Some r))\<rparr>"

definition paris_trip :: Trip where
  "paris_trip =
     \<lparr>dir = ''2023-07-paris-france'', name = ''July 2023, Paris France'',
      images = [''a.jpg'', ''b.PNG'']\<rparr>"

definition dollar_raw :: RawMetadata where
  "dollar_raw = no_tags\<lparr>ImageDescription := Some ''Worth the $$$''\<rparr>"

definition twice_template :: string where
  "twice_template = ''<a><!-- PUT CONTENT HERE --><b><!-- PUT CONTENT HERE --><c>''"

definition plain_template :: string where
  "plain_template = ''<html><body><!-- content --></body></html>''"

definition dollar_trip :: Trip where
  "dollar_trip =
     \<lparr>dir = ''2023-07-paris-france'', name = ''July 2023, Paris France'', images = [''a.jpg'']\<rparr>"

definition dollar_lead :: string where
  \<comment> \<open>the content for the trip with the dollar description, up to the dollar signs\<close>
  \<open>dollar_lead =
     ''\<newline>    <section class="trip-section" id="2023-07-paris-france">\<newline>        <div class="trip-header">\<newline>            <h2 class="trip-title">July 2023, Paris France</h2>\<newline>            <div class="trip-meta">\<newline>                <span class="trip-count">1 photos</span>\<newline>            </div>\<newline>        </div>\<newline>        <div class="gallery">\<newline>            \<newline>        <div class="image-container">\<newline>            <img src="/public/travel/2023-07-paris-france/a.jpg" alt="July 2023, Paris France - a.jpg" loading="lazy">\<newline>            <div class="image-info">\<newline>                <p class="date">''
     @ calendar @ '' Unknown date</p>\<newline>                <p class="camera">''
     @ camera_sign @ '' Unknown camera</p>\<newline>                \<newline>                <p class="description">''
     @ memo @ '' Worth the ''\<close>

definition dollar_tail :: string where
  \<comment> \<open>the same content after the dollar signs\<close>
  \<open>dollar_tail =
     ''</p>\<newline>            </div>\<newline>        </div>\<newline>        </div>\<newline>    </section>''\<close>

definition equator_raw :: RawMetadata where
  "equator_raw = no_tags\<lparr>latitude := Some (Fin 0), longitude := Some (Fin 10)\<rparr>"

definition dollar_env :: env where
  \<comment> \<open>a decoder that yields the description with dollar signs, and a template with two markers\<close>
  "dollar_env = (decoded dollar_raw)\<lparr>readTemplate := Inr twice_template\<rparr>"

section \<open>Properties of the metadata normaliser\<close>

text \<open>
  Claim C1. For every image path, \<^verbatim>\<open>getImageMetadata\<close> gives its caller a record and
  never a failure: when the decoder raises, or resolves to no data, the record is exactly
  the fallback one, with the date "Unknown date", the camera "Unknown camera", and
  neither a location nor a description.
\<close>

theorem getImageMetadata_degrades:
  "exifr_parse e imagePath = Inl msg \<or> exifr_parse e imagePath = Inr None \<Longrightarrow>
   getImageMetadata e imagePath =
     \<lparr>date = ''Unknown date'', camera = ''Unknown camera'', location = None, description = None\<rparr>"
  by (auto simp: getImageMetadata_def fallback_def)

theorem getImageMetadata_degrades_witness:
  "exifr_parse sample_env ''public/travel/2023-07-paris-france/c.jpg'' = Inl ''Unknown file format''
   \<and> getImageMetadata sample_env ''public/travel/2023-07-paris-france/c.jpg'' =
     \<lparr>date = ''Unknown date'', camera = ''Unknown camera'', location = None, description = None\<rparr>
   \<and> exifr_parse sample_env ''public/travel/2023-07-paris-france/b.PNG'' = Inr None
   \<and> getImageMetadata sample_env ''public/travel/2023-07-paris-france/b.PNG'' =
     \<lparr>date = ''Unknown date'', camera = ''Unknown camera'', location = None, description = None\<rparr>"
proof -
  have a: "exifr_parse sample_env ''public/travel/2023-07-paris-france/c.jpg'' = Inl ''Unknown file format''"
    by (simp add: sample_env_def)
  have b: "exifr_parse sample_env ''public/travel/2023-07-paris-france/b.PNG'' = Inr None"
    by (simp add: sample_env_def)
  from a b show ?thesis
    using getImageMetadata_degrades [of sample_env "''public/travel/2023-07-paris-france/c.jpg''" "''Unknown file format''"]
      getImageMetadata_degrades [of sample_env "''public/travel/2023-07-paris-france/b.PNG''"]
    by simp
qed

lemma camera_fill [simp]:
  "camera (fill_description r m) = camera m" "camera (fill_location r m) = camera m"
  "camera (fill_date e r m) = camera m"
  by (simp_all add: fill_description_def fill_location_def fill_date_def)

lemma description_fill [simp]:
  "description (fill_camera r m) = description m" "description (fill_location r m) = description m"
  "description (fill_date e r m) = description m"
  by (simp_all add: fill_camera_def fill_location_def fill_date_def)

lemma location_fill [simp]:
  "location (fill_camera r m) = location m" "location (fill_description r m) = location m"
  "location (fill_date e r m) = location m"
  by (simp_all add: fill_camera_def fill_description_def fill_date_def)

lemma date_fill [simp]:
  "date (fill_camera r m) = date m" "date (fill_description r m) = date m"
  "date (fill_location r m) = date m"
  by (simp_all add: fill_camera_def fill_description_def fill_location_def)

lemma truthy_string_iff: "truthy_string v = (\<exists>s. v = Some s \<and> s \<noteq> [])"
  by (cases v) auto

lemma truthy_number_iff:
  "truthy_number v = (\<exists>n. v = Some n \<and> n \<noteq> NaN \<and> n \<noteq> Fin 0)"
proof (cases v)
  case None then show ?thesis by simp
next
  case (Some n) then show ?thesis by (cases n) auto
qed

text \<open>
  Claim C7, as amended. The tests on the make and the model are truthiness tests, so a
  field counts only when it is there and not empty: the camera is "Make Model" when both
  count, the one that counts when only one does, and "Unknown camera" when neither does.
  An empty make or model is treated as a missing one.
\<close>

theorem camera_nonempty_fields:
  assumes "exifr_parse e imagePath = Inr (Some r)"
  shows "(Make r = Some mk \<and> mk \<noteq> [] \<and> Model r = Some md \<and> md \<noteq> [] \<longrightarrow>
            camera (getImageMetadata e imagePath) = mk @ '' '' @ md)
       \<and> (Make r = Some mk \<and> mk \<noteq> [] \<and> (Model r = None \<or> Model r = Some []) \<longrightarrow>
            camera (getImageMetadata e imagePath) = mk)
       \<and> ((Make r = None \<or> Make r = Some []) \<and> Model r = Some md \<and> md \<noteq> [] \<longrightarrow>
            camera (getImageMetadata e imagePath) = md)
       \<and> ((Make r = None \<or> Make r = Some []) \<and> (Model r = None \<or> Model r = Some []) \<longrightarrow>
            camera (getImageMetadata e imagePath) = ''Unknown camera'')"
  using assms by (auto simp: getImageMetadata_def fill_camera_def fallback_def truthy_string_iff)

text \<open>
  The claim as written fails for a record whose make is there but empty: both fields are
  present, and the camera is the model alone, not the make, a space and the model.
\<close>

theorem camera_empty_make_counterexample:
  "Make (no_tags\<lparr>Make := Some [], Model := Some ''EOS R5''\<rparr>) = Some []
   \<and> Model (no_tags\<lparr>Make := Some [], Model := Some ''EOS R5''\<rparr>) = Some ''EOS R5''
   \<and> camera (getImageMetadata (decoded (no_tags\<lparr>Make := Some [], Model := Some ''EOS R5''\<rparr>)) ''a.jpg'')
       = ''EOS R5''
   \<and> camera (getImageMetadata (decoded (no_tags\<lparr>Make := Some [], Model := Some ''EOS R5''\<rparr>)) ''a.jpg'')
       \<noteq> [] @ '' '' @ ''EOS R5''"
  by (simp add: getImageMetadata_def decoded_def sample_env_def no_tags_def fill_camera_def fallback_def)

text \<open>
  Claim C8, as amended. The description is the original description when that field is
  there and not empty, else the user comment when that one is there and not empty, else
  it is absent. An empty field is treated as a missing one.
\<close>

theorem description_nonempty_fields:
  assumes "exifr_parse e imagePath = Inr (Some r)"
  shows "(ImageDescription r = Some d \<and> d \<noteq> [] \<longrightarrow>
            description (getImageMetadata e imagePath) = Some d)
       \<and> ((ImageDescription r = None \<or> ImageDescription r = Some [])
            \<and> UserComment r = Some u \<and> u \<noteq> [] \<longrightarrow>
            description (getImageMetadata e imagePath) = Some u)
       \<and> ((ImageDescription r = None \<or> ImageDescription r = Some [])
            \<and> (UserComment r = None \<or> UserComment r = Some []) \<longrightarrow>
            description (getImageMetadata e imagePath) = None)"
  using assms by (auto simp: getImageMetadata_def fill_description_def fallback_def truthy_string_iff)

text \<open>
  Claim C6. Whatever the decoder does (it raises, gives no data, or gives any record),
  the record returned has a date and a camera that are not empty, its location is absent
  or holds both coordinates of the raw record, and its description is absent or a text
  that is not empty. The date is the text the platform's date formatting returns, which
  is never empty (an invalid date prints as "Invalid Date"); that is the hypothesis.
\<close>

theorem normalized_invariant:
  assumes "\<And>t. toLocaleDateString e t \<noteq> []"
  shows "date (getImageMetadata e imagePath) \<noteq> []
       \<and> camera (getImageMetadata e imagePath) \<noteq> []
       \<and> (location (getImageMetadata e imagePath) = None
          \<or> (\<exists>r la lo. exifr_parse e imagePath = Inr (Some r)
                \<and> latitude r = Some la \<and> longitude r = Some lo
                \<and> location (getImageMetadata e imagePath) = Some \<lparr>lat = la, lng = lo\<rparr>))
       \<and> (description (getImageMetadata e imagePath) = None
          \<or> (\<exists>s. description (getImageMetadata e imagePath) = Some s \<and> s \<noteq> []))"
proof (cases "exifr_parse e imagePath")
  case (Inl msg)
  then show ?thesis by (simp add: getImageMetadata_def fallback_def)
next
  case (Inr v)
  show ?thesis
  proof (cases v)
    case None
    with Inr show ?thesis by (simp add: getImageMetadata_def fallback_def)
  next
    case (Some r)
    have d: "date (getImageMetadata e imagePath) \<noteq> []"
      using Inr Some assms by (simp add: getImageMetadata_def fill_date_def fallback_def)
    have c: "camera (getImageMetadata e imagePath) \<noteq> []"
      using Inr Some
      by (auto simp: getImageMetadata_def fill_camera_def fallback_def truthy_string_iff)
    have l: "location (getImageMetadata e imagePath) = None
          \<or> (\<exists>la lo. latitude r = Some la \<and> longitude r = Some lo
                \<and> location (getImageMetadata e imagePath) = Some \<lparr>lat = la, lng = lo\<rparr>)"
      using Inr Some
      by (auto simp: getImageMetadata_def fill_location_def fallback_def truthy_number_iff)
    have s: "description (getImageMetadata e imagePath) = None
          \<or> (\<exists>s. description (getImageMetadata e imagePath) = Some s \<and> s \<noteq> [])"
      using Inr Some
      by (auto simp: getImageMetadata_def fill_description_def fallback_def truthy_string_iff)
    from d c l s Inr Some show ?thesis by blast
  qed
qed


theorem camera_nonempty_fields_witness:
  "camera (getImageMetadata sample_env ''public/travel/2023-07-paris-france/a.jpg'') = ''Canon EOS R5''
   \<and> camera (getImageMetadata (decoded (no_tags\<lparr>Make := Some ''Canon''\<rparr>)) ''a.jpg'') = ''Canon''
   \<and> camera (getImageMetadata (decoded (no_tags\<lparr>Make := Some [], Model := Some ''EOS R5''\<rparr>)) ''a.jpg'') = ''EOS R5''
   \<and> camera (getImageMetadata (decoded no_tags) ''a.jpg'') = ''Unknown camera''"
proof -
  have p1: "exifr_parse sample_env ''public/travel/2023-07-paris-france/a.jpg'' = Inr (Some paris_raw)"
    by (simp add: sample_env_def)
  have p2: "exifr_parse (decoded r) ''a.jpg'' = Inr (Some r)" for r
    by (simp add: decoded_def)
  show ?thesis
    using camera_nonempty_fields [OF p1, of "''Canon''" "''EOS R5''"]
      camera_nonempty_fields [OF p2, of "no_tags\<lparr>Make := Some ''Canon''\<rparr>" "''Canon''" "[]"]
      camera_nonempty_fields [OF p2, of "no_tags\<lparr>Make := Some [], Model := Some ''EOS R5''\<rparr>" "[]" "''EOS R5''"]
      camera_nonempty_fields [OF p2, of no_tags "[]" "[]"]
    by (simp add: paris_raw_def no_tags_def)
qed

text \<open>
  The claim as written fails for a record whose original description is there but empty:
  the description is then the user comment.
\<close>

theorem description_empty_counterexample:
  "ImageDescription (no_tags\<lparr>ImageDescription := Some [], UserComment := Some ''Sunset''\<rparr>) = Some []
   \<and> description (getImageMetadata
        (decoded (no_tags\<lparr>ImageDescription := Some [], UserComment := Some ''Sunset''\<rparr>)) ''a.jpg'')
       = Some ''Sunset''
   \<and> description (getImageMetadata
        (decoded (no_tags\<lparr>ImageDescription := Some [], UserComment := Some ''Sunset''\<rparr>)) ''a.jpg'')
       \<noteq> ImageDescription (no_tags\<lparr>ImageDescription := Some [], UserComment := Some ''Sunset''\<rparr>)"
  by (simp add: getImageMetadata_def decoded_def sample_env_def no_tags_def fill_description_def fallback_def)

theorem description_nonempty_fields_witness:
  "description (getImageMetadata sample_env ''public/travel/2023-07-paris-france/a.jpg'') = Some ''Eiffel Tower''
   \<and> description (getImageMetadata (decoded (no_tags\<lparr>UserComment := Some ''Sunset''\<rparr>)) ''a.jpg'') = Some ''Sunset''
   \<and> description (getImageMetadata (decoded no_tags) ''a.jpg'') = None"
proof -
  have p1: "exifr_parse sample_env ''public/travel/2023-07-paris-france/a.jpg'' = Inr (Some paris_raw)"
    by (simp add: sample_env_def)
  have p2: "exifr_parse (decoded r) ''a.jpg'' = Inr (Some r)" for r
    by (simp add: decoded_def)
  show ?thesis
    using description_nonempty_fields [OF p1, of "''Eiffel Tower''" "[]"]
      description_nonempty_fields [OF p2, of "no_tags\<lparr>UserComment := Some ''Sunset''\<rparr>" "[]" "''Sunset''"]
      description_nonempty_fields [OF p2, of no_tags "[]" "[]"]
    by (simp add: paris_raw_def no_tags_def)
qed

theorem normalized_invariant_witness:
  "date (getImageMetadata sample_env ''public/travel/2023-07-paris-france/a.jpg'') \<noteq> []
   \<and> camera (getImageMetadata sample_env ''public/travel/2023-07-paris-france/a.jpg'') \<noteq> []
   \<and> location (getImageMetadata sample_env ''public/travel/2023-07-paris-france/a.jpg'')
       = Some \<lparr>lat = Fin (488584 / 10000), lng = Fin (22945 / 10000)\<rparr>
   \<and> description (getImageMetadata sample_env ''public/travel/2023-07-paris-france/a.jpg'')
       = Some ''Eiffel Tower''"
proof -
  have h: "toLocaleDateString sample_env t \<noteq> []" for t
    by (simp add: sample_env_def)
  have p1: "exifr_parse sample_env ''public/travel/2023-07-paris-france/a.jpg'' = Inr (Some paris_raw)"
    by (simp add: sample_env_def)
  have l: "location (getImageMetadata sample_env ''public/travel/2023-07-paris-france/a.jpg'')
       = Some \<lparr>lat = Fin (488584 / 10000), lng = Fin (22945 / 10000)\<rparr>"
    using p1 by (simp add: getImageMetadata_def fill_location_def paris_raw_def fallback_def)
  have s: "description (getImageMetadata sample_env ''public/travel/2023-07-paris-france/a.jpg'')
       = Some ''Eiffel Tower''"
    using p1 by (simp add: getImageMetadata_def fill_description_def paris_raw_def fallback_def)
  from l s show ?thesis
    using normalized_invariant [of sample_env "''public/travel/2023-07-paris-france/a.jpg''", OF h]
    by simp
qed

text \<open>
  Claim C2. The claim asks for a location whenever both coordinates are present, and for
  the map link whenever there is a location. The test of line 85 is a truthiness test,
  so a coordinate that is present with the value zero is taken for a missing one: for a
  picture taken on the equator, with latitude 0 and longitude 10, both fields are
  present, the location is absent and the image block is rendered without the line of
  the map link. With latitude 1 in its place the location holds both coordinates.
\<close>

theorem zero_latitude_loses_location:
  \<open>latitude equator_raw = Some (Fin 0) \<and> longitude equator_raw = Some (Fin 10)
   \<and> location (getImageMetadata (decoded equator_raw)
         ''public/travel/2023-07-paris-france/a.jpg'') = None
   \<and> imageElement (decoded equator_raw) ''2023-07-paris-france'' ''July 2023, Paris France''
         ''a.jpg''
       = ''\<newline>        <div class="image-container">\<newline>            <img src="/public/travel/2023-07-paris-france/a.jpg" alt="July 2023, Paris France - a.jpg" loading="lazy">\<newline>            <div class="image-info">\<newline>                <p class="date">''
         @ calendar @ '' Unknown date</p>\<newline>                <p class="camera">''
         @ camera_sign @ '' Unknown camera</p>\<newline>                \<newline>                \<newline>            </div>\<newline>        </div>''
   \<and> location (getImageMetadata (decoded (equator_raw\<lparr>latitude := Some (Fin 1)\<rparr>))
         ''public/travel/2023-07-paris-france/a.jpg'')
       = Some \<lparr>lat = Fin 1, lng = Fin 10\<rparr>\<close>
proof -
  have m: "getImageMetadata (decoded equator_raw) p = fallback" for p
    by (simp add: getImageMetadata_def decoded_def equator_raw_def no_tags_def fallback_def
        fill_date_def fill_camera_def fill_location_def fill_description_def)
  have l: "location (getImageMetadata (decoded (equator_raw\<lparr>latitude := Some (Fin 1)\<rparr>)) p)
       = Some \<lparr>lat = Fin 1, lng = Fin 10\<rparr>" for p
    by (simp add: getImageMetadata_def decoded_def equator_raw_def no_tags_def fallback_def
        fill_location_def)
  have i: \<open>imageElement (decoded equator_raw) ''2023-07-paris-france'' ''July 2023, Paris France''
         ''a.jpg''
       = ''\<newline>        <div class="image-container">\<newline>            <img src="/public/travel/2023-07-paris-france/a.jpg" alt="July 2023, Paris France - a.jpg" loading="lazy">\<newline>            <div class="image-info">\<newline>                <p class="date">''
         @ calendar @ '' Unknown date</p>\<newline>                <p class="camera">''
         @ camera_sign @ '' Unknown camera</p>\<newline>                \<newline>                \<newline>            </div>\<newline>        </div>''\<close>
    by (simp add: imageElement_def m locationInfo_def descriptionInfo_def fallback_def Let_def)
  have c: "latitude equator_raw = Some (Fin 0)" "longitude equator_raw = Some (Fin 10)"
    by (simp_all add: equator_raw_def no_tags_def)
  have n: "location (getImageMetadata (decoded equator_raw)
         ''public/travel/2023-07-paris-france/a.jpg'') = None"
    by (simp add: m fallback_def)
  show ?thesis
    by (intro conjI) (rule c n i l)+
qed

section \<open>Properties of the page assembly\<close>

subsection \<open>The first occurrence of a text, and its replacement\<close>

lemma indexOf_SomeD:
  "indexOf m s = Some i \<Longrightarrow> take (length m) (drop i s) = m \<and> i + length m \<le> length s"
proof (induction s arbitrary: i)
  case Nil
  then show ?case by (simp split: if_splits)
next
  case (Cons c cs)
  show ?case
  proof (cases "take (length m) (c # cs) = m")
    case True
    then have "length (take (length m) (c # cs)) = length m" by simp
    then have "length m \<le> length (c # cs)" by auto
    with True Cons.prems show ?thesis by simp
  next
    case False
    with Cons.prems obtain j where j: "indexOf m cs = Some j" "i = Suc j" by auto
    from Cons.IH [OF j(1)] j(2) show ?thesis by simp
  qed
qed

lemma indexOf_decomp:
  assumes "indexOf m s = Some i"
  shows "s = take i s @ m @ drop (i + length m) s"
proof -
  from indexOf_SomeD [OF assms] have t: "take (length m) (drop i s) = m" by simp
  have "drop i s = take (length m) (drop i s) @ drop (length m) (drop i s)"
    by (rule append_take_drop_id [symmetric])
  with t have "drop i s = m @ drop (i + length m) s" by (simp add: add.commute)
  then have "take i s @ drop i s = take i s @ m @ drop (i + length m) s" by simp
  then show ?thesis by simp
qed

lemma indexOf_least:
  "indexOf m s = Some i \<Longrightarrow> s = pre @ m @ post \<Longrightarrow> i \<le> length pre"
proof (induction s arbitrary: i pre)
  case Nil
  then show ?case by (simp split: if_splits)
next
  case (Cons c cs)
  show ?case
  proof (cases "take (length m) (c # cs) = m")
    case True
    with Cons.prems(1) have "i = 0" by simp
    then show ?thesis by simp
  next
    case False
    with Cons.prems(1) obtain j where j: "indexOf m cs = Some j" "i = Suc j" by auto
    from False Cons.prems(2) have "pre \<noteq> []" by auto
    then obtain pre' where p: "pre = c # pre'" "cs = pre' @ m @ post"
      using Cons.prems(2) by (cases pre) auto
    from Cons.IH [OF j(1) p(2)] j(2) p(1) show ?thesis by simp
  qed
qed

lemma indexOf_None:
  "indexOf m s = None \<Longrightarrow> s \<noteq> pre @ m @ post"
proof (induction s arbitrary: pre)
  case Nil
  then show ?case by (simp split: if_splits)
next
  case (Cons c cs)
  from Cons.prems have nf: "take (length m) (c # cs) \<noteq> m" and n: "indexOf m cs = None"
    by (auto split: if_splits)
  show ?case
  proof
    assume eq: "c # cs = pre @ m @ post"
    with nf have "pre \<noteq> []" by auto
    then obtain pre' where "pre = c # pre'" "cs = pre' @ m @ post"
      using eq by (cases pre) auto
    with Cons.IH [OF n] show False by blast
  qed
qed

lemma indexOf_first:
  assumes "s = pre @ m @ post"
    and "\<And>pre' post'. s = pre' @ m @ post' \<Longrightarrow> length pre \<le> length pre'"
  shows "indexOf m s = Some (length pre)"
proof -
  from assms(1) indexOf_None [of m s pre post] obtain i where i: "indexOf m s = Some i"
    by (cases "indexOf m s") auto
  from indexOf_least [OF i assms(1)] have le: "i \<le> length pre" .
  from indexOf_SomeD [OF i] have "i \<le> length s" by simp
  then have "length (take i s) = i" by simp
  moreover from assms(2) [OF indexOf_decomp [OF i]] have "length pre \<le> length (take i s)" .
  ultimately show ?thesis using le i by simp
qed

lemma getSubstitution_plain:
  "CHR 0x24 \<notin> set r \<Longrightarrow> getSubstitution m b a r = r"
  by (induction m b a r rule: getSubstitution.induct) auto

lemma replace_first:
  assumes "s = pre @ m @ post"
    and "\<And>pre' post'. s = pre' @ m @ post' \<Longrightarrow> length pre \<le> length pre'"
  shows "replace m r s = pre @ getSubstitution m pre post r @ post"
  using indexOf_first [OF assms] assms(1) by (simp add: replace_def)

lemma replace_absent:
  assumes "\<not> (\<exists>pre post. s = pre @ m @ post)"
  shows "replace m r s = s"
proof (cases "indexOf m s")
  case None
  then show ?thesis by (simp add: replace_def)
next
  case (Some i)
  from indexOf_decomp [OF Some] assms show ?thesis by blast
qed

subsection \<open>The sample album, rendered\<close>










subsection \<open>Templates and the marker\<close>

text \<open>
  Claim C9. When the template text does not hold the marker, the page returned is the
  template, unchanged, whatever the trips are: the generated content is dropped.
\<close>

theorem template_without_marker:
  assumes "readTemplate e = Inr template"
    and "\<not> (\<exists>pre post. template = pre @ MARKER @ post)"
  shows "generateTravelPage e trips = Some template"
  using assms(1) replace_absent [OF assms(2)] by (simp add: generateTravelPage_def)

theorem template_without_marker_witness:
  "readTemplate (sample_env\<lparr>readTemplate := Inr plain_template\<rparr>) = Inr plain_template
   \<and> generateTravelPage (sample_env\<lparr>readTemplate := Inr plain_template\<rparr>) [paris_trip]
       = Some ''<html><body><!-- content --></body></html>''"
proof -
  have r: "readTemplate (sample_env\<lparr>readTemplate := Inr plain_template\<rparr>) = Inr plain_template"
    by simp
  have "indexOf MARKER plain_template = None"
    by (simp add: MARKER_def plain_template_def)
  then have n: "\<not> (\<exists>pre post. plain_template = pre @ MARKER @ post)"
    using indexOf_None by blast
  from r show ?thesis
    using template_without_marker [where trips = "[paris_trip]", OF r n] by (simp add: plain_template_def)
qed

lemma fill_date_template:
  "fill_date (e\<lparr>readTemplate := t\<rparr>) r m = fill_date e r m"
  by (simp add: fill_date_def)

lemma getImageMetadata_template:
  "getImageMetadata (e\<lparr>readTemplate := t\<rparr>) p = getImageMetadata e p"
  by (simp add: getImageMetadata_def fill_date_template split: sum.split option.split)

lemma first_at:
  assumes "indexOf m s = Some (length pre)"
  shows "s = pre' @ m @ post' \<Longrightarrow> length pre \<le> length pre'"
  using indexOf_least [OF assms] by simp

lemma md_dollar: "getImageMetadata dollar_env p
   = \<lparr>date = ''Unknown date'', camera = ''Unknown camera'', location = None,
      description = Some ''Worth the $$$''\<rparr>"
  by (simp add: dollar_env_def getImageMetadata_template getImageMetadata_def decoded_def
      dollar_raw_def no_tags_def fallback_def
      fill_date_def fill_camera_def fill_location_def fill_description_def)

lemma img_dollar: \<open>imageElement dollar_env ''2023-07-paris-france'' ''July 2023, Paris France'' f
  = ''\<newline>        <div class="image-container">\<newline>            <img src="/public/travel/2023-07-paris-france/''
    @ f @ ''" alt="July 2023, Paris France - '' @ f @ ''" loading="lazy">\<newline>            <div class="image-info">\<newline>                <p class="date">''
    @ calendar @ '' Unknown date</p>\<newline>                <p class="camera">''
    @ camera_sign @ '' Unknown camera</p>\<newline>                \<newline>                <p class="description">''
    @ memo @ '' Worth the $$$</p>\<newline>            </div>\<newline>        </div>''\<close>
  by (simp add: imageElement_def md_dollar locationInfo_def descriptionInfo_def Let_def)

lemma getSubstitution_append_plain:
  "CHR 0x24 \<notin> set xs \<Longrightarrow> getSubstitution m b a (xs @ ys) = xs @ getSubstitution m b a ys"
proof (induction xs)
  case Nil
  then show ?case by simp
next
  case (Cons c cs)
  then have c: "c \<noteq> CHR 0x24" and IH: "getSubstitution m b a (cs @ ys) = cs @ getSubstitution m b a ys"
    by auto
  show ?case
  proof (cases "cs @ ys")
    case Nil
    then show ?thesis by simp
  next
    case (Cons d r)
    with c IH show ?thesis by simp
  qed
qed

lemma content_dollar: "pageContent dollar_env [dollar_trip] = dollar_lead @ ''$$$'' @ dollar_tail"
  by (simp add: pageContent_def dollar_trip_def generateTripSection_def img_dollar
      dollar_lead_def dollar_tail_def)

lemma page_at_marker:
  assumes "readTemplate e = Inr (pre @ MARKER @ post)"
    and "indexOf MARKER (pre @ MARKER @ post) = Some (length pre)"
  shows "generateTravelPage e trips
      = Some (pre @ getSubstitution MARKER pre post (pageContent e trips) @ post)"
  using assms by (simp add: generateTravelPage_def replace_def Let_def)

text \<open>
  Claim C10. The claim asks that the first occurrence of the marker be replaced by the
  generated content and that every later occurrence stay as it is. Line 184 hands the
  content to \<^verbatim>\<open>replace\<close> as a replacement pattern, so dollar signs in it are not
  copied as they are: with a template that holds the marker twice and an image whose
  description is "Worth the $$$", the page holds "Worth the $$" in the place of the
  first marker, which is not the generated content. The second marker stays.
\<close>

theorem dollar_description_altered:
  "readTemplate dollar_env = Inr ''<a><!-- PUT CONTENT HERE --><b><!-- PUT CONTENT HERE --><c>''
   \<and> description (getImageMetadata dollar_env ''public/travel/2023-07-paris-france/a.jpg'')
       = Some ''Worth the $$$''
   \<and> pageContent dollar_env [dollar_trip] = dollar_lead @ ''$$$'' @ dollar_tail
   \<and> generateTravelPage dollar_env [dollar_trip]
       = Some (''<a>'' @ (dollar_lead @ ''$$'' @ dollar_tail) @ ''<b><!-- PUT CONTENT HERE --><c>'')
   \<and> generateTravelPage dollar_env [dollar_trip]
       \<noteq> Some (''<a>'' @ pageContent dollar_env [dollar_trip]
               @ ''<b><!-- PUT CONTENT HERE --><c>'')"
proof -
  let ?post = "''<b><!-- PUT CONTENT HERE --><c>''"
  have r: "readTemplate dollar_env = Inr ''<a><!-- PUT CONTENT HERE --><b><!-- PUT CONTENT HERE --><c>''"
    by (simp add: dollar_env_def twice_template_def)
  have r': "readTemplate dollar_env = Inr (''<a>'' @ MARKER @ ?post)"
    by (simp add: dollar_env_def twice_template_def MARKER_def)
  have d: "description (getImageMetadata dollar_env ''public/travel/2023-07-paris-france/a.jpg'')
       = Some ''Worth the $$$''"
    by (simp add: md_dollar)
  have i: "indexOf MARKER (''<a>'' @ MARKER @ ?post) = Some (length ''<a>'')"
    by (simp add: MARKER_def)
  have nl: "CHR 0x24 \<notin> set dollar_lead"
    by (simp add: dollar_lead_def pin_def memo_def calendar_def camera_sign_def)
  have nt: "CHR 0x24 \<notin> set dollar_tail"
    by (simp add: dollar_tail_def)
  have t: "dollar_tail = CHR ''<'' # tl dollar_tail"
    by (simp add: dollar_tail_def)
  have "getSubstitution MARKER ''<a>'' ?post (''$$$'' @ CHR ''<'' # tl dollar_tail)
      = ''$$'' @ getSubstitution MARKER ''<a>'' ?post (CHR ''<'' # tl dollar_tail)"
    by simp
  then have "getSubstitution MARKER ''<a>'' ?post (''$$$'' @ dollar_tail)
      = ''$$'' @ getSubstitution MARKER ''<a>'' ?post dollar_tail"
    by (simp only: t [symmetric])
  also have "getSubstitution MARKER ''<a>'' ?post dollar_tail = dollar_tail"
    using nt by (rule getSubstitution_plain)
  finally have "getSubstitution MARKER ''<a>'' ?post (''$$$'' @ dollar_tail) = ''$$'' @ dollar_tail" .
  with getSubstitution_append_plain [OF nl]
  have s: "getSubstitution MARKER ''<a>'' ?post (dollar_lead @ ''$$$'' @ dollar_tail)
      = dollar_lead @ ''$$'' @ dollar_tail"
    by simp
  have g: "generateTravelPage dollar_env [dollar_trip]
       = Some (''<a>'' @ (dollar_lead @ ''$$'' @ dollar_tail) @ ?post)"
    unfolding page_at_marker [OF r' i] content_dollar s ..
  have "dollar_lead @ ''$$'' @ dollar_tail \<noteq> dollar_lead @ ''$$$'' @ dollar_tail"
    by simp
  then have ne: "generateTravelPage dollar_env [dollar_trip]
       \<noteq> Some (''<a>'' @ pageContent dollar_env [dollar_trip] @ ?post)"
    unfolding g content_dollar by simp
  show ?thesis
    by (intro conjI) (rule r d content_dollar g ne)+
qed

text \<open>
  Claim C5. With no trip, the content put into the page is the fixed "No trips found"
  block, it holds no section, and a template with the marker comes back with exactly
  this block in the place of the first marker.
\<close>

theorem no_trips_placeholder:
  \<open>pageContent e [] = ''<div class="no-trips"><h2>No trips found</h2></div>''
   \<and> \<not> (\<exists>a b. pageContent e [] = a @ ''<section'' @ b)
   \<and> (readTemplate e = Inr template \<and> template = pre @ MARKER @ post
        \<and> (\<forall>pre' post'. template = pre' @ MARKER @ post' \<longrightarrow> length pre \<le> length pre')
      \<longrightarrow> generateTravelPage e []
            = Some (pre @ ''<div class="no-trips"><h2>No trips found</h2></div>'' @ post))\<close>
proof -
  have c: "pageContent e [] = NO_TRIPS"
    by (simp add: pageContent_def)
  have "indexOf ''<section'' NO_TRIPS = None"
    by (simp add: NO_TRIPS_def)
  then have s: "\<not> (\<exists>a b. NO_TRIPS = a @ ''<section'' @ b)"
    using indexOf_None by blast
  have d: "CHR 0x24 \<notin> set NO_TRIPS"
    by (simp add: NO_TRIPS_def)
  have "generateTravelPage e [] = Some (pre @ NO_TRIPS @ post)"
    if "readTemplate e = Inr template" and "template = pre @ MARKER @ post"
      and "\<forall>pre' post'. template = pre' @ MARKER @ post' \<longrightarrow> length pre \<le> length pre'"
    using that replace_first [of template pre MARKER post NO_TRIPS] getSubstitution_plain [OF d]
    by (simp add: generateTravelPage_def c)
  with c s show ?thesis by (simp add: NO_TRIPS_def)
qed

theorem no_trips_placeholder_witness:
  \<open>generateTravelPage sample_env []
     = Some ''<head/>\<newline><div class="no-trips"><h2>No trips found</h2></div>\<newline><foot/>''\<close>
proof -
  have r: "readTemplate sample_env = Inr sample_template"
    by (simp add: sample_env_def)
  have t: "sample_template = ''<head/>\<newline>'' @ MARKER @ ''\<newline><foot/>''"
    by (simp add: sample_template_def MARKER_def)
  have "indexOf MARKER sample_template = Some (length ''<head/>\<newline>'')"
    by (simp add: sample_template_def MARKER_def)
  then have f: "\<forall>pre' post'. sample_template = pre' @ MARKER @ post'
      \<longrightarrow> length ''<head/>\<newline>'' \<le> length pre'"
    using first_at by blast
  from r t f show ?thesis
    using no_trips_placeholder [of sample_env sample_template "''<head/>\<newline>''" "''\<newline><foot/>''"]
    by simp
qed

section \<open>Properties of trip collection and trip names\<close>





subsection \<open>The section ids of the rendered page\<close>


declare decimal.simps [simp del]







lemma plain_append [simp]: "plain (s @ t) = (plain s \<and> plain t)"
  by (auto simp: plain_def)

lemma plain_Nil [simp]: "plain []"
  by (simp add: plain_def)

lemma plain_Cons [simp]: "plain (c # s) = (c \<noteq> CHR ''<'' \<and> c \<noteq> CHR 0x24 \<and> plain s)"
  by (auto simp: plain_def)














































lemma monthNames_nonempty: "k < 12 \<Longrightarrow> monthNames ! k \<noteq> []"
proof -
  assume k: "k < 12"
  have "length monthNames = 12" by (simp add: monthNames_def)
  with k have "monthNames ! k \<in> set monthNames" by (simp only: nth_mem)
  moreover have "\<forall>s \<in> set monthNames. s \<noteq> []" by (simp add: monthNames_def)
  ultimately show ?thesis by blast
qed

text \<open>
  Claim C3. The month part of the trip name is the entry of the table of twelve month
  names for the number that \<^verbatim>\<open>parseInt\<close> reads from the second dash-separated part,
  when that number is from 1 to 12; when nothing is read, or the number is outside this
  range, it is the second part as it stands. The trip name starts with this month part.
  The trip name of "2023-07-paris-france" is "July 2023, Paris France", and the month
  part of "2023-13-nowhere" is "13".
\<close>

theorem formatTripName_month:
  "(parseInt (ToString month) = Some n \<and> 1 \<le> n \<and> n \<le> 12
      \<longrightarrow> monthName month = Some (monthNames ! nat (n - 1)))
   \<and> (parseInt (ToString month) = None
        \<or> (parseInt (ToString month) = Some n \<and> (n < 1 \<or> 12 < n))
      \<longrightarrow> monthName month = month)
   \<and> monthNames = [''January'', ''February'', ''March'', ''April'', ''May'', ''June'',
        ''July'', ''August'', ''September'', ''October'', ''November'', ''December'']
   \<and> (\<exists>rest. formatTripName dirName
        = ToString (monthName (index (split (CHR ''-'') dirName) 1)) @ '' '' @ rest)
   \<and> formatTripName ''2023-07-paris-france'' = ''July 2023, Paris France''
   \<and> index (split (CHR ''-'') ''2023-13-nowhere'') 1 = Some ''13''
   \<and> monthName (Some ''13'') = Some ''13''
   \<and> formatTripName ''2023-13-nowhere'' = ''13 2023, Nowhere''"
proof -
  have a: "monthName month = Some (monthNames ! nat (n - 1))"
    if "parseInt (ToString month) = Some n" "1 \<le> n" "n \<le> 12"
  proof -
    from that have k: "nat (n - 1) < 12" by simp
    from that have "index_number monthNames (map_option (\<lambda>n. n - 1) (parseInt (ToString month)))
        = Some (monthNames ! nat (n - 1))"
      by (simp add: index_number_def monthNames_def)
    with monthNames_nonempty [OF k] show ?thesis
      by (simp add: monthName_def or_else_def)
  qed
  have b: "monthName month = month"
    if "parseInt (ToString month) = None
        \<or> (parseInt (ToString month) = Some n \<and> (n < 1 \<or> 12 < n))"
  proof -
    from that have "index_number monthNames (map_option (\<lambda>n. n - 1) (parseInt (ToString month)))
        = None"
      by (auto simp: index_number_def monthNames_def)
    then show ?thesis by (simp add: monthName_def or_else_def)
  qed
  have c: "\<exists>rest. formatTripName dirName
        = ToString (monthName (index (split (CHR ''-'') dirName) 1)) @ '' '' @ rest"
    by (simp add: formatTripName_def Let_def)
  have p13: "parseInt ''13'' = Some 13"
    by (simp add: parseInt_def white1_def white2_def white3_def radixDigit_def digitValue_def
        digitsValue_def)
  have m13: "monthName (Some ''13'') = Some ''13''"
    by (simp add: monthName_def p13 ToString_def index_number_def or_else_def monthNames_def)
  have p07: "parseInt ''07'' = Some 7"
    by (simp add: parseInt_def white1_def white2_def white3_def radixDigit_def digitValue_def
        digitsValue_def)
  have m07: "monthName (Some ''07'') = Some ''July''"
    by (simp add: monthName_def p07 ToString_def index_number_def or_else_def monthNames_def)
  have e1: "formatTripName ''2023-07-paris-france'' = ''July 2023, Paris France''"
    by (simp add: formatTripName_def m07 ToString_def index_def capitalize_def charAt_def
        toUpperCase_def upper_char_def)
  have e2: "formatTripName ''2023-13-nowhere'' = ''13 2023, Nowhere''"
    by (simp add: formatTripName_def m13 ToString_def index_def capitalize_def charAt_def
        toUpperCase_def upper_char_def)
  have e3: "index (split (CHR ''-'') ''2023-13-nowhere'') 1 = Some ''13''"
    by (simp add: index_def)
  have mn: "monthNames = [''January'', ''February'', ''March'', ''April'', ''May'', ''June'',
        ''July'', ''August'', ''September'', ''October'', ''November'', ''December'']"
    by (simp add: monthNames_def)
  have ab1: "parseInt (ToString month) = Some n \<and> 1 \<le> n \<and> n \<le> 12
      \<longrightarrow> monthName month = Some (monthNames ! nat (n - 1))"
    using a by blast
  have ab2: "parseInt (ToString month) = None
        \<or> (parseInt (ToString month) = Some n \<and> (n < 1 \<or> 12 < n))
      \<longrightarrow> monthName month = month"
    using b by blast
  show ?thesis
    by (intro conjI) (rule ab1 ab2 mn c e1 e3 m13 e2)+
qed

theorem formatTripName_month_witness:
  "parseInt (ToString (Some ''07'')) = Some 7 \<and> monthName (Some ''07'') = Some ''July''
   \<and> parseInt (ToString (Some '' 0xC'')) = Some 12 \<and> monthName (Some '' 0xC'') = Some ''December''
   \<and> parseInt (ToString (Some ''0'')) = Some 0 \<and> monthName (Some ''0'') = Some ''0''
   \<and> parseInt (ToString (Some ''july'')) = None \<and> monthName (Some ''july'') = Some ''july''
   \<and> parseInt (ToString None) = None \<and> monthName None = None"
proof -
  have p: "parseInt (ToString (Some ''07'')) = Some 7"
    "parseInt (ToString (Some '' 0xC'')) = Some 12"
    "parseInt (ToString (Some ''0'')) = Some 0"
    "parseInt (ToString (Some ''july'')) = None"
    "parseInt (ToString None) = None"
    by (simp_all add: ToString_def parseInt_def white1_def white2_def white3_def radixDigit_def
        digitValue_def digitsValue_def)
  note T = formatTripName_month
  from p(1) T [where month = "Some ''07''" and n = 7, THEN conjunct1]
  have "monthName (Some ''07'') = Some (monthNames ! nat (7 - 1))" by simp
  then have m1: "monthName (Some ''07'') = Some ''July''" by (simp add: monthNames_def)
  from p(2) T [where month = "Some '' 0xC''" and n = 12, THEN conjunct1]
  have "monthName (Some '' 0xC'') = Some (monthNames ! nat (12 - 1))" by simp
  then have m2: "monthName (Some '' 0xC'') = Some ''December''" by (simp add: monthNames_def)
  from p(3) T [where month = "Some ''0''" and n = 0, THEN conjunct2, THEN conjunct1]
  have m3: "monthName (Some ''0'') = Some ''0''" by simp
  from p(4) T [where month = "Some ''july''" and n = 0, THEN conjunct2, THEN conjunct1]
  have m4: "monthName (Some ''july'') = Some ''july''" by simp
  from p(5) T [where month = None and n = 0, THEN conjunct2, THEN conjunct1]
  have m5: "monthName None = None" by simp
  show ?thesis
    by (intro conjI) (rule p m1 m2 m3 m4 m5)+
qed

end
